theory Spec2Isabelle
  imports Complex_Main
begin

section \<open>Python values\<close>

text \<open>
  A Python \<open>str\<close> is a sequence of Unicode code points, and both \<open>len\<close> and the
  length constraints of the schemas count code points. A string is therefore a list of
  code points; \<open>ascii\<close> writes a literal. Python's unbounded \<open>int\<close> is \<open>int\<close>.
  A \<open>float\<close> that is only stored and compared with zero (\<open>precio_base\<close>) is the real
  number it denotes.
\<close>

type_synonym codepoint = nat
type_synonym str = "codepoint list"
type_synonym char_class = "codepoint \<Rightarrow> bool"

definition ascii :: "string \<Rightarrow> str" where
  "ascii s = map of_char s"

section \<open>app/models.py: the tables\<close>

text \<open>
  An ORM object is a record of its column attributes. Every attribute of a Python object
  can hold \<open>None\<close> (the \<open>id\<close> of an object that was not inserted yet does), so
  each one is an option; \<open>nullable=False\<close> is a constraint the store checks when the
  session commits.
\<close>

datatype TipoDireccion = FACTURACION | ENVIO

record Cliente =
  id :: "int option"
  razon_social :: "str option"
  nombre_comercial :: "str option"
  rfc :: "str option"
  correo_electronico :: "str option"
  telefono :: "str option"

record Domicilio =
  id :: "int option"
  domicilio :: "str option"
  colonia :: "str option"
  municipio :: "str option"
  estado :: "str option"
  tipo_direccion :: "TipoDireccion option"
  cliente_id :: "int option"

record Producto =
  id :: "int option"
  nombre :: "str option"
  unidad_medida :: "str option"
  precio_base :: "real option"

text \<open>
  The relational store behind the session: one list of rows per \<open>__tablename__\<close>, in
  the order a query without \<open>ORDER BY\<close> reads them (insertion order).
\<close>

record database =
  clientes :: "Cliente list"
  domicilios :: "Domicilio list"
  productos :: "Producto list"

definition empty_database :: database where
  "empty_database = \<lparr>clientes = [], domicilios = [], productos = []\<rparr>"

section \<open>app/schemas.py: the request and response models\<close>

text \<open>
  A field of an update model is either absent from the payload (\<open>Unset\<close>, dropped by
  \<open>model_dump(exclude_unset=True)\<close>) or set, to a value or to an explicit \<open>null\<close>
  (every field of an update model is \<open>Optional\<close>).
\<close>

datatype 'a field = Unset | SetTo "'a option"

record ClienteBase =
  razon_social :: str
  nombre_comercial :: str
  rfc :: str
  correo_electronico :: str
  telefono :: str

type_synonym ClienteCreate = ClienteBase

record ClienteUpdate =
  razon_social :: "str field"
  nombre_comercial :: "str field"
  rfc :: "str field"
  correo_electronico :: "str field"
  telefono :: "str field"

record ClienteResponse = ClienteBase +
  id :: int

record DomicilioBase =
  domicilio :: str
  colonia :: str
  municipio :: str
  estado :: str
  tipo_direccion :: TipoDireccion

type_synonym DomicilioCreate = DomicilioBase

record DomicilioUpdate =
  domicilio :: "str field"
  colonia :: "str field"
  municipio :: "str field"
  estado :: "str field"
  tipo_direccion :: "TipoDireccion field"

record DomicilioResponse = DomicilioBase +
  id :: int
  cliente_id :: int

record ProductoBase =
  nombre :: str
  unidad_medida :: str
  precio_base :: real

type_synonym ProductoCreate = ProductoBase

record ProductoUpdate =
  nombre :: "str field"
  unidad_medida :: "str field"
  precio_base :: "real field"

record ProductoResponse = ProductoBase +
  id :: int

subsection \<open>The tax ID pattern\<close>

text \<open>
  The pattern of \<open>rfc\<close> is a sequence of character classes, each repeated between a lower
  and an upper number of times, anchored at both ends. \<open>regex_match\<close> tries every
  admissible length of the first repetition and matches the rest of the pattern on the rest
  of the string; the empty pattern matches at the end of the string only (\<open>$\<close>).
  The class \<open>\d\<close> is the regex engine's table of decimal digits, which is not part
  of the repository: it is the parameter \<open>d\<close>.
\<close>

fun regex_match :: "(char_class \<times> nat \<times> nat) list \<Rightarrow> str \<Rightarrow> bool" where
  "regex_match [] s = (s = [])"
| "regex_match ((cls, lo, hi) # ps) s =
     list_ex (\<lambda>k. k \<le> length s \<and> list_all cls (take k s) \<and> regex_match ps (drop k s))
       [lo..<Suc hi]"

text \<open>
  The pattern of \<open>ClienteBase.rfc\<close>: three or four of \<open>A\<close> to \<open>Z\<close> (65 to 90), the
  capital N with tilde (209) and \<open>&\<close> (38); six digits; three of \<open>A\<close> to \<open>Z\<close> and
  the digits.
\<close>

definition rfc_pattern :: "char_class \<Rightarrow> str \<Rightarrow> bool" where
  "rfc_pattern d s = regex_match
     [(\<lambda>c. (65 \<le> c \<and> c \<le> 90) \<or> c = 209 \<or> c = 38, 3, 4),
      (d, 6, 6),
      (\<lambda>c. (65 \<le> c \<and> c \<le> 90) \<or> d c, 3, 3)] s"

text \<open>The ASCII digits, the part of \<open>\d\<close> every engine agrees on; used for concrete runs.\<close>

definition ascii_digit :: char_class where
  "ascii_digit c = (48 \<le> c \<and> c \<le> 57)"

subsection \<open>Field constraints\<close>

text \<open>
  A validation error names the field and the constraint that failed, as the entries of the
  \<open>detail\<close> list of a 422 response do. A string field reports the first of
  \<open>min_length\<close>, \<open>max_length\<close> and \<open>pattern\<close> that fails.
\<close>

type_synonym validation_error = "string \<times> string"

definition str_errors :: "string \<Rightarrow> nat \<Rightarrow> nat \<Rightarrow> str \<Rightarrow> validation_error list" where
  "str_errors loc min_length max_length s =
     (if length s < min_length then [(loc, ''string_too_short'')]
      else if max_length < length s then [(loc, ''string_too_long'')]
      else [])"

definition pattern_errors :: "string \<Rightarrow> nat \<Rightarrow> nat \<Rightarrow> (str \<Rightarrow> bool) \<Rightarrow> str \<Rightarrow> validation_error list" where
  "pattern_errors loc min_length max_length pattern s =
     (if length s < min_length then [(loc, ''string_too_short'')]
      else if max_length < length s then [(loc, ''string_too_long'')]
      else if \<not> pattern s then [(loc, ''string_pattern_mismatch'')]
      else [])"

definition gt_errors :: "string \<Rightarrow> real \<Rightarrow> real \<Rightarrow> validation_error list" where
  "gt_errors loc bound x = (if bound < x then [] else [(loc, ''greater_than'')])"

text \<open>
  \<open>EmailStr\<close> is the e-mail validator of the library, not part of the repository: the
  parameter \<open>email\<close> gives the normalised address of an accepted input and \<open>None\<close>
  for a rejected one.
\<close>

definition email_errors :: "string \<Rightarrow> (str \<Rightarrow> str option) \<Rightarrow> str \<Rightarrow> validation_error list" where
  "email_errors loc email s = (case email s of None \<Rightarrow> [(loc, ''value_error'')] | Some _ \<Rightarrow> [])"

text \<open>An optional field of an update model is checked only when it is set to a value.\<close>

fun optional :: "('a \<Rightarrow> validation_error list) \<Rightarrow> 'a field \<Rightarrow> validation_error list" where
  "optional check Unset = []"
| "optional check (SetTo None) = []"
| "optional check (SetTo (Some v)) = check v"

fun normalise :: "('a \<Rightarrow> 'a option) \<Rightarrow> 'a field \<Rightarrow> 'a field" where
  "normalise f Unset = Unset"
| "normalise f (SetTo None) = SetTo None"
| "normalise f (SetTo (Some v)) = SetTo (case f v of None \<Rightarrow> Some v | Some w \<Rightarrow> Some w)"

subsection \<open>Validation of the models\<close>

definition ClienteBase_errors ::
  "char_class \<Rightarrow> (str \<Rightarrow> str option) \<Rightarrow> 'a ClienteBase_scheme \<Rightarrow> validation_error list" where
  "ClienteBase_errors d email m =
     str_errors ''razon_social'' 1 255 (ClienteBase.razon_social m) @
     str_errors ''nombre_comercial'' 1 255 (ClienteBase.nombre_comercial m) @
     pattern_errors ''rfc'' 12 13 (rfc_pattern d) (ClienteBase.rfc m) @
     email_errors ''correo_electronico'' email (ClienteBase.correo_electronico m) @
     str_errors ''telefono'' 10 20 (ClienteBase.telefono m)"

text \<open>A model that validates is returned with its e-mail address normalised.\<close>

definition ClienteBase_validate ::
  "char_class \<Rightarrow> (str \<Rightarrow> str option) \<Rightarrow> 'a ClienteBase_scheme \<Rightarrow>
     validation_error list + 'a ClienteBase_scheme" where
  "ClienteBase_validate d email m =
     (case ClienteBase_errors d email m of
        [] \<Rightarrow> (case email (ClienteBase.correo_electronico m) of
                 None \<Rightarrow> Inr m
               | Some e \<Rightarrow> Inr (m\<lparr>ClienteBase.correo_electronico := e\<rparr>))
      | err # errs \<Rightarrow> Inl (err # errs))"

definition ClienteUpdate_errors :: "(str \<Rightarrow> str option) \<Rightarrow> ClienteUpdate \<Rightarrow> validation_error list" where
  "ClienteUpdate_errors email m =
     optional (str_errors ''razon_social'' 1 255) (ClienteUpdate.razon_social m) @
     optional (str_errors ''nombre_comercial'' 1 255) (ClienteUpdate.nombre_comercial m) @
     optional (str_errors ''rfc'' 12 13) (ClienteUpdate.rfc m) @
     optional (email_errors ''correo_electronico'' email) (ClienteUpdate.correo_electronico m) @
     optional (str_errors ''telefono'' 10 20) (ClienteUpdate.telefono m)"

definition ClienteUpdate_validate ::
  "(str \<Rightarrow> str option) \<Rightarrow> ClienteUpdate \<Rightarrow> validation_error list + ClienteUpdate" where
  "ClienteUpdate_validate email payload =
     (case ClienteUpdate_errors email payload of
        [] \<Rightarrow> Inr (payload\<lparr>ClienteUpdate.correo_electronico :=
                      normalise email (ClienteUpdate.correo_electronico payload)\<rparr>)
      | err # errs \<Rightarrow> Inl (err # errs))"

definition DomicilioBase_errors :: "'a DomicilioBase_scheme \<Rightarrow> validation_error list" where
  "DomicilioBase_errors m =
     str_errors ''domicilio'' 1 500 (DomicilioBase.domicilio m) @
     str_errors ''colonia'' 1 255 (DomicilioBase.colonia m) @
     str_errors ''municipio'' 1 255 (DomicilioBase.municipio m) @
     str_errors ''estado'' 1 255 (DomicilioBase.estado m)"

definition DomicilioBase_validate ::
  "'a DomicilioBase_scheme \<Rightarrow> validation_error list + 'a DomicilioBase_scheme" where
  "DomicilioBase_validate m =
     (case DomicilioBase_errors m of [] \<Rightarrow> Inr m | err # errs \<Rightarrow> Inl (err # errs))"

definition DomicilioUpdate_errors :: "DomicilioUpdate \<Rightarrow> validation_error list" where
  "DomicilioUpdate_errors m =
     optional (str_errors ''domicilio'' 1 500) (DomicilioUpdate.domicilio m) @
     optional (str_errors ''colonia'' 1 255) (DomicilioUpdate.colonia m) @
     optional (str_errors ''municipio'' 1 255) (DomicilioUpdate.municipio m) @
     optional (str_errors ''estado'' 1 255) (DomicilioUpdate.estado m)"

definition DomicilioUpdate_validate :: "DomicilioUpdate \<Rightarrow> validation_error list + DomicilioUpdate" where
  "DomicilioUpdate_validate payload =
     (case DomicilioUpdate_errors payload of [] \<Rightarrow> Inr payload | err # errs \<Rightarrow> Inl (err # errs))"

definition ProductoBase_errors :: "'a ProductoBase_scheme \<Rightarrow> validation_error list" where
  "ProductoBase_errors m =
     str_errors ''nombre'' 1 255 (ProductoBase.nombre m) @
     str_errors ''unidad_medida'' 1 50 (ProductoBase.unidad_medida m) @
     gt_errors ''precio_base'' 0 (ProductoBase.precio_base m)"

definition ProductoBase_validate ::
  "'a ProductoBase_scheme \<Rightarrow> validation_error list + 'a ProductoBase_scheme" where
  "ProductoBase_validate m =
     (case ProductoBase_errors m of [] \<Rightarrow> Inr m | err # errs \<Rightarrow> Inl (err # errs))"

definition ProductoUpdate_errors :: "ProductoUpdate \<Rightarrow> validation_error list" where
  "ProductoUpdate_errors m =
     optional (str_errors ''nombre'' 1 255) (ProductoUpdate.nombre m) @
     optional (str_errors ''unidad_medida'' 1 50) (ProductoUpdate.unidad_medida m) @
     optional (gt_errors ''precio_base'' 0) (ProductoUpdate.precio_base m)"

definition ProductoUpdate_validate :: "ProductoUpdate \<Rightarrow> validation_error list + ProductoUpdate" where
  "ProductoUpdate_validate payload =
     (case ProductoUpdate_errors payload of [] \<Rightarrow> Inr payload | err # errs \<Rightarrow> Inl (err # errs))"

section \<open>The session: queries and commits\<close>

text \<open>
  The handlers reach the store through an ORM session. What they use of it is modelled
  here, for the default store of \<open>app/database.py\<close> (SQLite): \<open>first()\<close> of a filtered
  query is the first matching row, \<open>offset\<close> and \<open>limit\<close> cut the result list (a negative
  offset counts as zero and a negative limit as no limit), an inserted row gets the next
  row id, and \<open>commit\<close> raises \<open>IntegrityError\<close> and leaves the store as it was when a
  \<open>nullable=False\<close> column would hold \<open>None\<close> or a \<open>unique=True\<close> column would
  repeat a value.
\<close>

datatype exception = HTTPException int string | IntegrityError

definition offset_limit :: "int \<Rightarrow> int \<Rightarrow> 'a list \<Rightarrow> 'a list" where
  "offset_limit skip limit rows =
     (let rest = drop (nat skip) rows
      in if limit < 0 then rest else take (nat limit) rest)"

definition next_id :: "int option list \<Rightarrow> int" where
  "next_id ids = (case List.map_filter (\<lambda>i. i) ids of [] \<Rightarrow> 1 | i # rest \<Rightarrow> fold max rest i + 1)"

definition Cliente_not_null :: "Cliente \<Rightarrow> bool" where
  "Cliente_not_null c =
     (Cliente.razon_social c \<noteq> None \<and> Cliente.nombre_comercial c \<noteq> None \<and>
      Cliente.rfc c \<noteq> None \<and> Cliente.correo_electronico c \<noteq> None \<and>
      Cliente.telefono c \<noteq> None)"

definition Domicilio_not_null :: "Domicilio \<Rightarrow> bool" where
  "Domicilio_not_null a =
     (Domicilio.domicilio a \<noteq> None \<and> Domicilio.colonia a \<noteq> None \<and>
      Domicilio.municipio a \<noteq> None \<and> Domicilio.estado a \<noteq> None \<and>
      Domicilio.tipo_direccion a \<noteq> None \<and> Domicilio.cliente_id a \<noteq> None)"

definition Producto_not_null :: "Producto \<Rightarrow> bool" where
  "Producto_not_null p =
     (Producto.nombre p \<noteq> None \<and> Producto.unidad_medida p \<noteq> None \<and>
      Producto.precio_base p \<noteq> None)"

text \<open>\<open>db.add(obj); db.commit(); db.refresh(obj)\<close> for a new object: the store and the
  refreshed object, which now carries its id.\<close>

definition add_Cliente :: "Cliente \<Rightarrow> database \<Rightarrow> exception + database \<times> Cliente" where
  "add_Cliente obj db =
     (if \<not> Cliente_not_null obj then Inl IntegrityError
      else if list_ex (\<lambda>r. Cliente.rfc r = Cliente.rfc obj) (clientes db) then Inl IntegrityError
      else let row = obj\<lparr>Cliente.id := Some (next_id (map Cliente.id (clientes db)))\<rparr>
           in Inr (db\<lparr>clientes := clientes db @ [row]\<rparr>, row))"

definition add_Domicilio :: "Domicilio \<Rightarrow> database \<Rightarrow> exception + database \<times> Domicilio" where
  "add_Domicilio obj db =
     (if \<not> Domicilio_not_null obj then Inl IntegrityError
      else let row = obj\<lparr>Domicilio.id := Some (next_id (map Domicilio.id (domicilios db)))\<rparr>
           in Inr (db\<lparr>domicilios := domicilios db @ [row]\<rparr>, row))"

definition add_Producto :: "Producto \<Rightarrow> database \<Rightarrow> exception + database \<times> Producto" where
  "add_Producto obj db =
     (if \<not> Producto_not_null obj then Inl IntegrityError
      else let row = obj\<lparr>Producto.id := Some (next_id (map Producto.id (productos db)))\<rparr>
           in Inr (db\<lparr>productos := productos db @ [row]\<rparr>, row))"

text \<open>\<open>db.commit()\<close> after the attributes of a loaded object were set: the row with the
  object's primary key is rewritten.\<close>

definition update_Cliente :: "Cliente \<Rightarrow> database \<Rightarrow> exception + database" where
  "update_Cliente obj db =
     (if \<not> Cliente_not_null obj then Inl IntegrityError
      else if list_ex (\<lambda>r. Cliente.id r \<noteq> Cliente.id obj \<and> Cliente.rfc r = Cliente.rfc obj)
                (clientes db)
        then Inl IntegrityError
      else Inr (db\<lparr>clientes :=
                  map (\<lambda>r. if Cliente.id r = Cliente.id obj then obj else r) (clientes db)\<rparr>))"

definition update_Domicilio :: "Domicilio \<Rightarrow> database \<Rightarrow> exception + database" where
  "update_Domicilio obj db =
     (if \<not> Domicilio_not_null obj then Inl IntegrityError
      else Inr (db\<lparr>domicilios :=
                  map (\<lambda>r. if Domicilio.id r = Domicilio.id obj then obj else r) (domicilios db)\<rparr>))"

definition update_Producto :: "Producto \<Rightarrow> database \<Rightarrow> exception + database" where
  "update_Producto obj db =
     (if \<not> Producto_not_null obj then Inl IntegrityError
      else Inr (db\<lparr>productos :=
                  map (\<lambda>r. if Producto.id r = Producto.id obj then obj else r) (productos db)\<rparr>))"

text \<open>\<open>db.delete(obj); db.commit()\<close>. The relationship \<open>Cliente.domicilios\<close> is declared
  with \<open>cascade="all, delete-orphan"\<close>: deleting a client deletes the addresses whose
  \<open>cliente_id\<close> is the client's id.\<close>

definition delete_Cliente :: "Cliente \<Rightarrow> database \<Rightarrow> database" where
  "delete_Cliente obj db =
     db\<lparr>clientes := filter (\<lambda>r. Cliente.id r \<noteq> Cliente.id obj) (clientes db),
        domicilios := filter (\<lambda>a. Domicilio.cliente_id a \<noteq> Cliente.id obj) (domicilios db)\<rparr>"

definition delete_Domicilio :: "Domicilio \<Rightarrow> database \<Rightarrow> database" where
  "delete_Domicilio obj db =
     db\<lparr>domicilios := filter (\<lambda>r. Domicilio.id r \<noteq> Domicilio.id obj) (domicilios db)\<rparr>"

definition delete_Producto :: "Producto \<Rightarrow> database \<Rightarrow> database" where
  "delete_Producto obj db =
     db\<lparr>productos := filter (\<lambda>r. Producto.id r \<noteq> Producto.id obj) (productos db)\<rparr>"

text \<open>The loop \<open>for key, value in m.model_dump(exclude_unset=True).items(): setattr(obj, key, value)\<close>
  sets the attributes whose fields are set, also to \<open>None\<close>, and no other.\<close>

fun setattr :: "'a field \<Rightarrow> 'a option \<Rightarrow> 'a option" where
  "setattr Unset old = old"
| "setattr (SetTo v) old = v"


definition ClienteUpdate_setattrs :: "ClienteUpdate \<Rightarrow> Cliente \<Rightarrow> Cliente" where
  "ClienteUpdate_setattrs m obj =
     obj\<lparr>Cliente.razon_social := setattr (ClienteUpdate.razon_social m) (Cliente.razon_social obj),
         Cliente.nombre_comercial := setattr (ClienteUpdate.nombre_comercial m) (Cliente.nombre_comercial obj),
         Cliente.rfc := setattr (ClienteUpdate.rfc m) (Cliente.rfc obj),
         Cliente.correo_electronico := setattr (ClienteUpdate.correo_electronico m) (Cliente.correo_electronico obj),
         Cliente.telefono := setattr (ClienteUpdate.telefono m) (Cliente.telefono obj)\<rparr>"

definition DomicilioUpdate_setattrs :: "DomicilioUpdate \<Rightarrow> Domicilio \<Rightarrow> Domicilio" where
  "DomicilioUpdate_setattrs m obj =
     obj\<lparr>Domicilio.domicilio := setattr (DomicilioUpdate.domicilio m) (Domicilio.domicilio obj),
         Domicilio.colonia := setattr (DomicilioUpdate.colonia m) (Domicilio.colonia obj),
         Domicilio.municipio := setattr (DomicilioUpdate.municipio m) (Domicilio.municipio obj),
         Domicilio.estado := setattr (DomicilioUpdate.estado m) (Domicilio.estado obj),
         Domicilio.tipo_direccion := setattr (DomicilioUpdate.tipo_direccion m) (Domicilio.tipo_direccion obj)\<rparr>"

definition ProductoUpdate_setattrs :: "ProductoUpdate \<Rightarrow> Producto \<Rightarrow> Producto" where
  "ProductoUpdate_setattrs m obj =
     obj\<lparr>Producto.nombre := setattr (ProductoUpdate.nombre m) (Producto.nombre obj),
         Producto.unidad_medida := setattr (ProductoUpdate.unidad_medida m) (Producto.unidad_medida obj),
         Producto.precio_base := setattr (ProductoUpdate.precio_base m) (Producto.precio_base obj)\<rparr>"

section \<open>app/main.py: the handlers\<close>

text \<open>
  A handler takes its validated arguments and the store and gives the store after the
  call and either the exception it raised or the value it returned. The parameters
  \<open>cliente_id\<close>, \<open>domicilio_id\<close> and \<open>producto_id\<close> are written \<open>cid\<close>, \<open>did\<close> and
  \<open>pid\<close>, and the model parameter of the address handlers \<open>payload\<close>, since those
  names are column names here.
\<close>

definition crear_cliente :: "ClienteCreate \<Rightarrow> database \<Rightarrow> database \<times> (exception + Cliente)" where
  "crear_cliente cliente db =
     (let db_cliente =
        \<lparr>Cliente.id = None,
         razon_social = Some (ClienteBase.razon_social cliente),
         nombre_comercial = Some (ClienteBase.nombre_comercial cliente),
         rfc = Some (ClienteBase.rfc cliente),
         correo_electronico = Some (ClienteBase.correo_electronico cliente),
         telefono = Some (ClienteBase.telefono cliente)\<rparr>
      in case add_Cliente db_cliente db of
           Inl e \<Rightarrow> (db, Inl e)
         | Inr (db', row) \<Rightarrow> (db', Inr row))"

definition listar_clientes :: "int \<Rightarrow> int \<Rightarrow> database \<Rightarrow> database \<times> (exception + Cliente list)" where
  "listar_clientes skip limit db = (db, Inr (offset_limit skip limit (clientes db)))"

definition obtener_cliente :: "int \<Rightarrow> database \<Rightarrow> database \<times> (exception + Cliente)" where
  "obtener_cliente cid db =
     (case find (\<lambda>r. Cliente.id r = Some cid) (clientes db) of
        None \<Rightarrow> (db, Inl (HTTPException 404 ''Cliente no encontrado''))
      | Some cliente \<Rightarrow> (db, Inr cliente))"

definition actualizar_cliente ::
  "int \<Rightarrow> ClienteUpdate \<Rightarrow> database \<Rightarrow> database \<times> (exception + Cliente)" where
  "actualizar_cliente cid cliente db =
     (case find (\<lambda>r. Cliente.id r = Some cid) (clientes db) of
        None \<Rightarrow> (db, Inl (HTTPException 404 ''Cliente no encontrado''))
      | Some db_cliente \<Rightarrow>
          (let obj = ClienteUpdate_setattrs cliente db_cliente
           in case update_Cliente obj db of
                Inl e \<Rightarrow> (db, Inl e)
              | Inr db' \<Rightarrow> (db', Inr obj)))"

definition eliminar_cliente :: "int \<Rightarrow> database \<Rightarrow> database \<times> (exception + unit)" where
  "eliminar_cliente cid db =
     (case find (\<lambda>r. Cliente.id r = Some cid) (clientes db) of
        None \<Rightarrow> (db, Inl (HTTPException 404 ''Cliente no encontrado''))
      | Some db_cliente \<Rightarrow> (delete_Cliente db_cliente db, Inr ()))"

definition crear_domicilio ::
  "int \<Rightarrow> DomicilioCreate \<Rightarrow> database \<Rightarrow> database \<times> (exception + Domicilio)" where
  "crear_domicilio cid payload db =
     (case find (\<lambda>r. Cliente.id r = Some cid) (clientes db) of
        None \<Rightarrow> (db, Inl (HTTPException 404 ''Cliente no encontrado''))
      | Some cliente \<Rightarrow>
          (let db_domicilio =
             \<lparr>Domicilio.id = None,
              domicilio = Some (DomicilioBase.domicilio payload),
              colonia = Some (DomicilioBase.colonia payload),
              municipio = Some (DomicilioBase.municipio payload),
              estado = Some (DomicilioBase.estado payload),
              tipo_direccion = Some (DomicilioBase.tipo_direccion payload),
              cliente_id = Some cid\<rparr>
           in case add_Domicilio db_domicilio db of
                Inl e \<Rightarrow> (db, Inl e)
              | Inr (db', row) \<Rightarrow> (db', Inr row)))"

definition listar_domicilios :: "int \<Rightarrow> database \<Rightarrow> database \<times> (exception + Domicilio list)" where
  "listar_domicilios cid db =
     (db, Inr (filter (\<lambda>a. Domicilio.cliente_id a = Some cid) (domicilios db)))"

definition obtener_domicilio :: "int \<Rightarrow> database \<Rightarrow> database \<times> (exception + Domicilio)" where
  "obtener_domicilio did db =
     (case find (\<lambda>r. Domicilio.id r = Some did) (domicilios db) of
        None \<Rightarrow> (db, Inl (HTTPException 404 ''Domicilio no encontrado''))
      | Some row \<Rightarrow> (db, Inr row))"

definition actualizar_domicilio ::
  "int \<Rightarrow> DomicilioUpdate \<Rightarrow> database \<Rightarrow> database \<times> (exception + Domicilio)" where
  "actualizar_domicilio did payload db =
     (case find (\<lambda>r. Domicilio.id r = Some did) (domicilios db) of
        None \<Rightarrow> (db, Inl (HTTPException 404 ''Domicilio no encontrado''))
      | Some db_domicilio \<Rightarrow>
          (let obj = DomicilioUpdate_setattrs payload db_domicilio
           in case update_Domicilio obj db of
                Inl e \<Rightarrow> (db, Inl e)
              | Inr db' \<Rightarrow> (db', Inr obj)))"

definition eliminar_domicilio :: "int \<Rightarrow> database \<Rightarrow> database \<times> (exception + unit)" where
  "eliminar_domicilio did db =
     (case find (\<lambda>r. Domicilio.id r = Some did) (domicilios db) of
        None \<Rightarrow> (db, Inl (HTTPException 404 ''Domicilio no encontrado''))
      | Some db_domicilio \<Rightarrow> (delete_Domicilio db_domicilio db, Inr ()))"

definition crear_producto :: "ProductoCreate \<Rightarrow> database \<Rightarrow> database \<times> (exception + Producto)" where
  "crear_producto producto db =
     (let db_producto =
        \<lparr>Producto.id = None,
         nombre = Some (ProductoBase.nombre producto),
         unidad_medida = Some (ProductoBase.unidad_medida producto),
         precio_base = Some (ProductoBase.precio_base producto)\<rparr>
      in case add_Producto db_producto db of
           Inl e \<Rightarrow> (db, Inl e)
         | Inr (db', row) \<Rightarrow> (db', Inr row))"

definition listar_productos :: "int \<Rightarrow> int \<Rightarrow> database \<Rightarrow> database \<times> (exception + Producto list)" where
  "listar_productos skip limit db = (db, Inr (offset_limit skip limit (productos db)))"

definition obtener_producto :: "int \<Rightarrow> database \<Rightarrow> database \<times> (exception + Producto)" where
  "obtener_producto pid db =
     (case find (\<lambda>r. Producto.id r = Some pid) (productos db) of
        None \<Rightarrow> (db, Inl (HTTPException 404 ''Producto no encontrado''))
      | Some producto \<Rightarrow> (db, Inr producto))"

definition actualizar_producto ::
  "int \<Rightarrow> ProductoUpdate \<Rightarrow> database \<Rightarrow> database \<times> (exception + Producto)" where
  "actualizar_producto pid producto db =
     (case find (\<lambda>r. Producto.id r = Some pid) (productos db) of
        None \<Rightarrow> (db, Inl (HTTPException 404 ''Producto no encontrado''))
      | Some db_producto \<Rightarrow>
          (let obj = ProductoUpdate_setattrs producto db_producto
           in case update_Producto obj db of
                Inl e \<Rightarrow> (db, Inl e)
              | Inr db' \<Rightarrow> (db', Inr obj)))"

definition eliminar_producto :: "int \<Rightarrow> database \<Rightarrow> database \<times> (exception + unit)" where
  "eliminar_producto pid db =
     (case find (\<lambda>r. Producto.id r = Some pid) (productos db) of
        None \<Rightarrow> (db, Inl (HTTPException 404 ''Producto no encontrado''))
      | Some db_producto \<Rightarrow> (delete_Producto db_producto db, Inr ()))"

section \<open>The application: routes, request validation, response models\<close>

text \<open>
  The framework validates the body of a request against the model the handler declares
  and answers 422 with the list of errors when it fails, without calling the handler. It
  answers an \<open>HTTPException\<close> with its status and detail and any other exception with
  500. The value a handler returns is validated against the route's \<open>response_model\<close>,
  read from the attributes of the ORM object (\<open>from_attributes\<close>); a value that does not
  validate is answered with 500, after the handler has committed.
\<close>

datatype content =
    Cliente_json ClienteResponse
  | Clientes_json "ClienteResponse list"
  | Domicilio_json DomicilioResponse
  | Domicilios_json "DomicilioResponse list"
  | Producto_json ProductoResponse
  | Productos_json "ProductoResponse list"
  | Health_json
  | Detail string
  | Validation_detail "validation_error list"
  | No_content
  | Internal_Server_Error

record response =
  status_code :: int
  content :: content

definition ClienteResponse_validate ::
  "char_class \<Rightarrow> (str \<Rightarrow> str option) \<Rightarrow> Cliente \<Rightarrow> ClienteResponse option" where
  "ClienteResponse_validate d email obj =
     (case (Cliente.id obj, Cliente.razon_social obj, Cliente.nombre_comercial obj,
            Cliente.rfc obj, Cliente.correo_electronico obj, Cliente.telefono obj) of
        (Some i, Some rs, Some nc, Some r, Some e, Some t) \<Rightarrow>
          (case ClienteBase_validate d email
                  \<lparr>ClienteBase.razon_social = rs, nombre_comercial = nc, rfc = r,
                   correo_electronico = e, telefono = t, ClienteResponse.id = i\<rparr> of
             Inl errs \<Rightarrow> None
           | Inr m \<Rightarrow> Some m)
      | _ \<Rightarrow> None)"

definition DomicilioResponse_validate :: "Domicilio \<Rightarrow> DomicilioResponse option" where
  "DomicilioResponse_validate obj =
     (case (Domicilio.id obj, Domicilio.domicilio obj, Domicilio.colonia obj,
            Domicilio.municipio obj, Domicilio.estado obj, Domicilio.tipo_direccion obj,
            Domicilio.cliente_id obj) of
        (Some i, Some a, Some c, Some m, Some e, Some t, Some k) \<Rightarrow>
          (case DomicilioBase_validate
                  \<lparr>DomicilioBase.domicilio = a, colonia = c, municipio = m, estado = e,
                   tipo_direccion = t, DomicilioResponse.id = i, cliente_id = k\<rparr> of
             Inl errs \<Rightarrow> None
           | Inr m \<Rightarrow> Some m)
      | _ \<Rightarrow> None)"

definition ProductoResponse_validate :: "Producto \<Rightarrow> ProductoResponse option" where
  "ProductoResponse_validate obj =
     (case (Producto.id obj, Producto.nombre obj, Producto.unidad_medida obj,
            Producto.precio_base obj) of
        (Some i, Some n, Some u, Some p) \<Rightarrow>
          (case ProductoBase_validate
                  \<lparr>ProductoBase.nombre = n, unidad_medida = u, precio_base = p,
                   ProductoResponse.id = i\<rparr> of
             Inl errs \<Rightarrow> None
           | Inr m \<Rightarrow> Some m)
      | _ \<Rightarrow> None)"

text \<open>A list response validates when every element does (\<open>those\<close>).\<close>

definition unprocessable :: "validation_error list \<Rightarrow> response" where
  "unprocessable errs = \<lparr>status_code = 422, content = Validation_detail errs\<rparr>"

definition server_error :: response where
  "server_error = \<lparr>status_code = 500, content = Internal_Server_Error\<rparr>"

fun serve ::
  "int \<Rightarrow> ('a \<Rightarrow> content option) \<Rightarrow> database \<times> (exception + 'a) \<Rightarrow> database \<times> response" where
  "serve code model (db, Inl (HTTPException status detail)) =
     (db, \<lparr>status_code = status, content = Detail detail\<rparr>)"
| "serve code model (db, Inl IntegrityError) = (db, server_error)"
| "serve code model (db, Inr returned) =
     (case model returned of
        None \<Rightarrow> (db, server_error)
      | Some body \<Rightarrow> (db, \<lparr>status_code = code, content = body\<rparr>))"

text \<open>
  The routes of the application. The query parameters \<open>skip\<close> and \<open>limit\<close> are optional,
  with the defaults 0 and 100.
\<close>

datatype request =
    POST_clientes ClienteCreate
  | GET_clientes "int option" "int option"
  | GET_cliente int
  | PUT_cliente int ClienteUpdate
  | DELETE_cliente int
  | POST_domicilios int DomicilioCreate
  | GET_domicilios int
  | GET_domicilio int
  | PUT_domicilio int DomicilioUpdate
  | DELETE_domicilio int
  | POST_productos ProductoCreate
  | GET_productos "int option" "int option"
  | GET_producto int
  | PUT_producto int ProductoUpdate
  | DELETE_producto int
  | GET_health

fun app :: "char_class \<Rightarrow> (str \<Rightarrow> str option) \<Rightarrow> request \<Rightarrow> database \<Rightarrow> database \<times> response" where
  "app d email (POST_clientes payload) db =
     (case ClienteBase_validate d email payload of
        Inl errs \<Rightarrow> (db, unprocessable errs)
      | Inr cliente \<Rightarrow>
          serve 201 (\<lambda>obj. map_option Cliente_json (ClienteResponse_validate d email obj))
            (crear_cliente cliente db))"
| "app d email (GET_clientes skip limit) db =
     serve 200 (\<lambda>objs. map_option Clientes_json (those (map (ClienteResponse_validate d email) objs)))
       (listar_clientes (case skip of None \<Rightarrow> 0 | Some n \<Rightarrow> n)
          (case limit of None \<Rightarrow> 100 | Some n \<Rightarrow> n) db)"
| "app d email (GET_cliente cid) db =
     serve 200 (\<lambda>obj. map_option Cliente_json (ClienteResponse_validate d email obj))
       (obtener_cliente cid db)"
| "app d email (PUT_cliente cid payload) db =
     (case ClienteUpdate_validate email payload of
        Inl errs \<Rightarrow> (db, unprocessable errs)
      | Inr cliente \<Rightarrow>
          serve 200 (\<lambda>obj. map_option Cliente_json (ClienteResponse_validate d email obj))
            (actualizar_cliente cid cliente db))"
| "app d email (DELETE_cliente cid) db =
     serve 204 (\<lambda>_. Some No_content) (eliminar_cliente cid db)"
| "app d email (POST_domicilios cid payload) db =
     (case DomicilioBase_validate payload of
        Inl errs \<Rightarrow> (db, unprocessable errs)
      | Inr m \<Rightarrow>
          serve 201 (\<lambda>obj. map_option Domicilio_json (DomicilioResponse_validate obj))
            (crear_domicilio cid m db))"
| "app d email (GET_domicilios cid) db =
     serve 200 (\<lambda>objs. map_option Domicilios_json (those (map DomicilioResponse_validate objs)))
       (listar_domicilios cid db)"
| "app d email (GET_domicilio did) db =
     serve 200 (\<lambda>obj. map_option Domicilio_json (DomicilioResponse_validate obj))
       (obtener_domicilio did db)"
| "app d email (PUT_domicilio did payload) db =
     (case DomicilioUpdate_validate payload of
        Inl errs \<Rightarrow> (db, unprocessable errs)
      | Inr m \<Rightarrow>
          serve 200 (\<lambda>obj. map_option Domicilio_json (DomicilioResponse_validate obj))
            (actualizar_domicilio did m db))"
| "app d email (DELETE_domicilio did) db =
     serve 204 (\<lambda>_. Some No_content) (eliminar_domicilio did db)"
| "app d email (POST_productos payload) db =
     (case ProductoBase_validate payload of
        Inl errs \<Rightarrow> (db, unprocessable errs)
      | Inr producto \<Rightarrow>
          serve 201 (\<lambda>obj. map_option Producto_json (ProductoResponse_validate obj))
            (crear_producto producto db))"
| "app d email (GET_productos skip limit) db =
     serve 200 (\<lambda>objs. map_option Productos_json (those (map ProductoResponse_validate objs)))
       (listar_productos (case skip of None \<Rightarrow> 0 | Some n \<Rightarrow> n)
          (case limit of None \<Rightarrow> 100 | Some n \<Rightarrow> n) db)"
| "app d email (GET_producto pid) db =
     serve 200 (\<lambda>obj. map_option Producto_json (ProductoResponse_validate obj))
       (obtener_producto pid db)"
| "app d email (PUT_producto pid payload) db =
     (case ProductoUpdate_validate payload of
        Inl errs \<Rightarrow> (db, unprocessable errs)
      | Inr producto \<Rightarrow>
          serve 200 (\<lambda>obj. map_option Producto_json (ProductoResponse_validate obj))
            (actualizar_producto pid producto db))"
| "app d email (DELETE_producto pid) db =
     serve 204 (\<lambda>_. Some No_content) (eliminar_producto pid db)"
| "app d email GET_health db = (db, \<lparr>status_code = 200, content = Health_json\<rparr>)"

text \<open>The store after a sequence of requests; every store the application can reach is
  \<open>run d email requests empty_database\<close> for some requests.\<close>

fun run :: "char_class \<Rightarrow> (str \<Rightarrow> str option) \<Rightarrow> request list \<Rightarrow> database \<Rightarrow> database" where
  "run d email [] db = db"
| "run d email (r # rs) db = run d email rs (fst (app d email r db))"

section \<open>app/metrics.py\<close>

text \<open>
  The sink is reached through a client of the cloud library. What the collector uses of
  it: a call of \<open>put_metric_data\<close> either returns or raises, and the library raises
  \<open>ClientError\<close> for an error response of the service, \<open>NoCredentialsError\<close> when it
  finds no credentials to sign with and \<open>EndpointConnectionError\<close> when the endpoint
  cannot be reached. The last two derive from \<open>BotoCoreError\<close>, not from
  \<open>ClientError\<close>, so \<open>except ClientError\<close> does not catch them. A client is the
  outcome of its calls (\<open>None\<close>: the call returns). The \<open>Timestamp\<close> of a datum is
  the clock's and is left out.
\<close>

datatype botocore_exception = ClientError | NoCredentialsError | EndpointConnectionError

record metric_datum =
  MetricName :: string
  Dimensions :: "(string \<times> str) list"
  Value :: real
  Unit :: string
  StorageResolution :: int

type_synonym cloudwatch_client = "str \<Rightarrow> metric_datum list \<Rightarrow> botocore_exception option"

datatype log_record = Info string | Warning string | Error string

record MetricsCollector =
  namespace :: str
  environment :: str
  region :: str
  cloudwatch :: "cloudwatch_client option"

record environ =
  AWS_ACCESS_KEY_ID :: "str option"
  AWS_SECRET_ACCESS_KEY :: "str option"
  AWS_PROFILE :: "str option"

text \<open>Truth value of what \<open>os.getenv\<close> returns: a variable that is set and not empty.\<close>

definition truthy :: "str option \<Rightarrow> bool" where
  "truthy v = (case v of None \<Rightarrow> False | Some s \<Rightarrow> s \<noteq> [])"

text \<open>\<open>MetricsCollector.__init__\<close>; \<open>boto3_client\<close> is what the call
  \<open>boto3.client('cloudwatch', ...)\<close> does in this environment.\<close>

definition MetricsCollector_init ::
  "str \<Rightarrow> str \<Rightarrow> str \<Rightarrow> environ \<Rightarrow> (botocore_exception + cloudwatch_client) \<Rightarrow>
     MetricsCollector \<times> log_record list" where
  "MetricsCollector_init ns env reg os_environ boto3_client =
     (let self = \<lparr>namespace = ns, environment = env, region = reg, cloudwatch = None\<rparr>;
          aws_key = AWS_ACCESS_KEY_ID os_environ;
          aws_secret = AWS_SECRET_ACCESS_KEY os_environ;
          aws_profile = AWS_PROFILE os_environ
      in if truthy aws_key \<and> truthy aws_secret \<or> truthy aws_profile then
           (case boto3_client of
              Inr client \<Rightarrow>
                (self\<lparr>cloudwatch := Some client\<rparr>, [Info ''CloudWatch client initialized''])
            | Inl NoCredentialsError \<Rightarrow>
                (self, [Warning ''AWS credentials not found. Metrics will be logged locally only.''])
            | Inl e \<Rightarrow> (self, [Warning ''Could not initialize CloudWatch client'']))
         else
           (self, [Info ''No AWS credentials found in environment; CloudWatch metrics disabled.'']))"

definition get_http_status_range :: "int \<Rightarrow> string" where
  "get_http_status_range status =
     (if 200 \<le> status \<and> status < 300 then ''2xx''
      else if 400 \<le> status \<and> status < 500 then ''4xx''
      else if 500 \<le> status \<and> status < 600 then ''5xx''
      else ''other'')"

text \<open>A recorder gives the lines it logged and either the exception that left it or
  \<open>()\<close>.\<close>

definition record_latency ::
  "MetricsCollector \<Rightarrow> str \<Rightarrow> real \<Rightarrow> log_record list \<times> (botocore_exception + unit)" where
  "record_latency self endpoint latency_ms =
     (let dimensions = [(''Environment'', environment self), (''Endpoint'', endpoint)];
          logged = [Info ''[METRIC] Latency'']
      in case cloudwatch self of
           None \<Rightarrow> (logged, Inr ())
         | Some client \<Rightarrow>
             (case client (namespace self)
                     [\<lparr>MetricName = ''RequestLatency'', Dimensions = dimensions,
                       Value = latency_ms, Unit = ''Milliseconds'', StorageResolution = 60\<rparr>] of
                None \<Rightarrow> (logged, Inr ())
              | Some ClientError \<Rightarrow>
                  (logged @ [Error ''Error sending latency metric to CloudWatch''], Inr ())
              | Some e \<Rightarrow> (logged, Inl e)))"

definition record_http_status ::
  "MetricsCollector \<Rightarrow> str \<Rightarrow> int \<Rightarrow> log_record list \<times> (botocore_exception + unit)" where
  "record_http_status self endpoint status =
     (let status_range = get_http_status_range status;
          dimensions = [(''Environment'', environment self), (''Endpoint'', endpoint),
                        (''StatusRange'', ascii status_range)];
          logged = [Info ''[METRIC] HTTP Status'']
      in case cloudwatch self of
           None \<Rightarrow> (logged, Inr ())
         | Some client \<Rightarrow>
             (case client (namespace self)
                     [\<lparr>MetricName = ''HTTPStatusCount'', Dimensions = dimensions,
                       Value = 1, Unit = ''Count'', StorageResolution = 60\<rparr>] of
                None \<Rightarrow> (logged, Inr ())
              | Some ClientError \<Rightarrow>
                  (logged @ [Error ''Error sending HTTP status metric to CloudWatch''], Inr ())
              | Some e \<Rightarrow> (logged, Inl e)))"

text \<open>
  \<open>metrics_middleware\<close> of \<open>app/main.py\<close>, from the point where \<open>call_next\<close> has
  returned the response: \<open>duration\<close> is the measured time in milliseconds. An exception
  of a recorder leaves the middleware, and the request fails instead of returning the
  response.
\<close>

definition metrics_middleware ::
  "MetricsCollector \<Rightarrow> str \<Rightarrow> str \<Rightarrow> real \<Rightarrow> response \<Rightarrow>
     log_record list \<times> (botocore_exception + response)" where
  "metrics_middleware metrics method path duration resp =
     (let endpoint = method @ ascii '' '' @ path
      in case record_latency metrics endpoint duration of
           (logged, Inl e) \<Rightarrow> (logged, Inl e)
         | (logged, Inr _) \<Rightarrow>
             (case record_http_status metrics endpoint (status_code resp) of
                (logged', Inl e) \<Rightarrow> (logged @ logged', Inl e)
              | (logged', Inr _) \<Rightarrow> (logged @ logged', Inr resp)))"

section \<open>Invariants of the store\<close>

text \<open>
  The primary keys and the tax IDs of the clients are pairwise different, and every address
  refers to a client that is in the store.
\<close>

definition keys_unique :: "database \<Rightarrow> bool" where
  "keys_unique db = (distinct (map Cliente.id (clientes db)) \<and> distinct (map Cliente.rfc (clientes db)))"

definition parents_exist :: "database \<Rightarrow> bool" where
  "parents_exist db =
     list_all (\<lambda>a. Domicilio.cliente_id a \<in> set (map Cliente.id (clientes db))) (domicilios db)"

section \<open>Concrete values\<close>

text \<open>
  The payloads of \<open>tests/test_catalogos.py\<close>, and the store after a client, two
  addresses of that client and a product were created from them. \<open>at_email\<close> stands for
  the e-mail validator in concrete runs: it accepts, unchanged, what contains an \<open>@\<close>
  (code point 64).
\<close>

definition at_email :: "str \<Rightarrow> str option" where
  "at_email s = (if 64 \<in> set s then Some s else None)"

definition test_cliente :: ClienteCreate where
  "test_cliente =
     \<lparr>ClienteBase.razon_social = ascii ''Empresa Test SA de CV'',
      nombre_comercial = ascii ''Test Company'',
      rfc = ascii ''TEST123456ABC'',
      correo_electronico = ascii ''test@empresa.com'',
      telefono = ascii ''5551234567''\<rparr>"

definition test_domicilio :: DomicilioCreate where
  "test_domicilio =
     \<lparr>DomicilioBase.domicilio = ascii ''Calle Test 123'',
      colonia = ascii ''Centro'',
      municipio = ascii ''Guadalajara'',
      estado = ascii ''Jalisco'',
      tipo_direccion = FACTURACION\<rparr>"

definition test_producto :: ProductoCreate where
  "test_producto =
     \<lparr>ProductoBase.nombre = ascii ''Producto Test'',
      unidad_medida = ascii ''PZA'',
      precio_base = 100.5\<rparr>"

definition test_database :: database where
  "test_database =
     \<lparr>clientes =
        [\<lparr>Cliente.id = Some 1,
          razon_social = Some (ascii ''Empresa Test SA de CV''),
          nombre_comercial = Some (ascii ''Test Company''),
          rfc = Some (ascii ''TEST123456ABC''),
          correo_electronico = Some (ascii ''test@empresa.com''),
          telefono = Some (ascii ''5551234567'')\<rparr>],
      domicilios =
        [\<lparr>Domicilio.id = Some 1,
          domicilio = Some (ascii ''Calle Test 123''),
          colonia = Some (ascii ''Centro''),
          municipio = Some (ascii ''Guadalajara''),
          estado = Some (ascii ''Jalisco''),
          tipo_direccion = Some FACTURACION,
          cliente_id = Some 1\<rparr>,
         \<lparr>Domicilio.id = Some 2,
          domicilio = Some (ascii ''Calle Test 123''),
          colonia = Some (ascii ''Centro''),
          municipio = Some (ascii ''Guadalajara''),
          estado = Some (ascii ''Jalisco''),
          tipo_direccion = Some ENVIO,
          cliente_id = Some 1\<rparr>],
      productos =
        [\<lparr>Producto.id = Some 1,
          nombre = Some (ascii ''Producto Test''),
          unidad_medida = Some (ascii ''PZA''),
          precio_base = Some 100.5\<rparr>]\<rparr>"





definition bad_rfc_update :: ClienteUpdate where
  "bad_rfc_update =
     \<lparr>ClienteUpdate.razon_social = Unset,
      nombre_comercial = Unset,
      rfc = SetTo (Some (ascii ''abcdefghijkl'')),
      correo_electronico = Unset,
      telefono = Unset\<rparr>"



text \<open>
  An environment with credentials, and a client whose sink cannot be reached: every call
  raises \<open>EndpointConnectionError\<close>.
\<close>

definition aws_environ :: environ where
  "aws_environ =
     \<lparr>AWS_ACCESS_KEY_ID = Some (ascii ''key''),
      AWS_SECRET_ACCESS_KEY = Some (ascii ''secret''),
      AWS_PROFILE = None\<rparr>"

definition unreachable_sink :: cloudwatch_client where
  "unreachable_sink ns data = Some EndpointConnectionError"

definition test_requests :: "request list" where
  "test_requests =
     [POST_clientes test_cliente,
      POST_domicilios 1 test_domicilio,
      POST_domicilios 1 (test_domicilio\<lparr>DomicilioBase.tipo_direccion := ENVIO\<rparr>),
      POST_productos test_producto]"

section \<open>Properties\<close>

subsection \<open>Queries\<close>


lemma find_present:
  "x \<in> f ` set xs \<Longrightarrow> \<exists>r. find (\<lambda>r. f r = x) xs = Some r \<and> r \<in> set xs \<and> f r = x"
  by (induction xs) auto

lemma test_database_reached:
  "run ascii_digit at_email test_requests empty_database = test_database"
  by code_simp

subsection \<open>Status ranges\<close>

text \<open>
  C10. The bucketing of a status code is total and exhaustive: every integer maps to
  exactly one of "2xx", "4xx", "5xx" and "other"; a code is in a numbered bucket exactly when
  it lies in that hundred, and every other code, in particular one below 200 or from 300 to
  399, maps to "other".
\<close>

theorem status_range_total:
  "get_http_status_range s \<in> {''2xx'', ''4xx'', ''5xx'', ''other''} \<and>
   (get_http_status_range s = ''2xx'') = (200 \<le> s \<and> s < 300) \<and>
   (get_http_status_range s = ''4xx'') = (400 \<le> s \<and> s < 500) \<and>
   (get_http_status_range s = ''5xx'') = (500 \<le> s \<and> s < 600) \<and>
   (get_http_status_range s = ''other'') = (s < 200 \<or> (300 \<le> s \<and> s < 400) \<or> 600 \<le> s)"
  unfolding get_http_status_range_def by auto

subsection \<open>Reading a record that is not there\<close>



subsection \<open>Deleting a client\<close>

text \<open>
  C5. Deleting a client that is in the store is answered with 204 and removes the client
  and every address whose \<open>cliente_id\<close> is the client's id: afterwards no address of
  that client remains, the addresses of other clients and the products are as before.
\<close>

theorem delete_cascade:
  assumes "Some cid \<in> Cliente.id ` set (clientes db)"
  shows "\<exists>db'. app d email (DELETE_cliente cid) db =
                  (db', \<lparr>status_code = 204, content = No_content\<rparr>) \<and>
           (\<forall>a \<in> set (domicilios db'). Domicilio.cliente_id a \<noteq> Some cid) \<and>
           (\<forall>c \<in> set (clientes db'). Cliente.id c \<noteq> Some cid) \<and>
           domicilios db' = filter (\<lambda>a. Domicilio.cliente_id a \<noteq> Some cid) (domicilios db) \<and>
           clientes db' = filter (\<lambda>c. Cliente.id c \<noteq> Some cid) (clientes db) \<and>
           productos db' = productos db"
proof -
  from find_present [OF assms] obtain r where
    "find (\<lambda>r. Cliente.id r = Some cid) (clientes db) = Some r" "Cliente.id r = Some cid"
    by blast
  then show ?thesis
    by (simp add: eliminar_cliente_def delete_Cliente_def)
qed

theorem delete_cascade_witness:
  "Some 1 \<in> Cliente.id ` set (clientes test_database) \<and>
   app ascii_digit at_email (DELETE_cliente 1) test_database =
     (test_database\<lparr>clientes := [], domicilios := []\<rparr>,
      \<lparr>status_code = 204, content = No_content\<rparr>)"
proof -
  have present: "Some 1 \<in> Cliente.id ` set (clientes test_database)"
    by (simp add: test_database_def)
  from delete_cascade [OF present, of ascii_digit at_email] obtain db' where
    db': "app ascii_digit at_email (DELETE_cliente 1) test_database =
            (db', \<lparr>status_code = 204, content = No_content\<rparr>)"
      "domicilios db' = filter (\<lambda>a. Domicilio.cliente_id a \<noteq> Some 1) (domicilios test_database)"
      "clientes db' = filter (\<lambda>c. Cliente.id c \<noteq> Some 1) (clientes test_database)"
      "productos db' = productos test_database"
    by blast
  have "db' = test_database\<lparr>clientes := [], domicilios := []\<rparr>"
    using db'(2-4) by (simp add: test_database_def)
  with present db'(1) show ?thesis by simp
qed

subsection \<open>The invariants hold in every store the application reaches\<close>

lemma fold_max_ge: "(a::int) \<le> fold max xs a \<and> (\<forall>x \<in> set xs. x \<le> fold max xs a)"
proof (induction xs arbitrary: a)
  case Nil
  show ?case by simp
next
  case (Cons x xs)
  from Cons [of "max x a"] show ?case by auto
qed

lemma next_id_fresh: "Some (next_id ids) \<notin> set ids"
proof
  assume "Some (next_id ids) \<in> set ids"
  then have mem: "next_id ids \<in> set (List.map_filter (\<lambda>i. i) ids)"
    by (force simp: List.map_filter_def)
  show False
  proof (cases "List.map_filter (\<lambda>i. i) ids")
    case Nil
    with mem show False by simp
  next
    case (Cons i rest)
    with mem fold_max_ge [of i rest] show False
      by (auto simp: next_id_def)
  qed
qed

lemma add_Cliente_keys:
  assumes "keys_unique db" "add_Cliente obj db = Inr (db', row)"
  shows "keys_unique db'"
proof -
  from assms(2) have new: "Cliente.rfc obj \<notin> Cliente.rfc ` set (clientes db)"
    and db': "db' = db\<lparr>clientes := clientes db @
                [obj\<lparr>Cliente.id := Some (next_id (map Cliente.id (clientes db)))\<rparr>]\<rparr>"
    by (auto simp: add_Cliente_def Let_def list_ex_iff image_iff split: if_splits)
  from next_id_fresh [of "map Cliente.id (clientes db)"]
  have "Some (next_id (map Cliente.id (clientes db))) \<notin> Cliente.id ` set (clientes db)"
    by simp
  with assms(1) new show ?thesis
    unfolding db' keys_unique_def by simp
qed

lemma update_rows_ids:
  "map Cliente.id (map (\<lambda>r. if Cliente.id r = Cliente.id obj then obj else r) rows) = map Cliente.id rows"
  by (induction rows) auto

lemma update_rows_rfc:
  assumes "distinct (map Cliente.id rows)" "distinct (map Cliente.rfc rows)"
    "\<forall>r \<in> set rows. Cliente.id r \<noteq> Cliente.id obj \<longrightarrow> Cliente.rfc r \<noteq> Cliente.rfc obj"
  shows "distinct (map Cliente.rfc (map (\<lambda>r. if Cliente.id r = Cliente.id obj then obj else r) rows))"
  using assms
proof (induction rows)
  case Nil
  show ?case by simp
next
  case (Cons r rows)
  then have IH: "distinct (map Cliente.rfc (map (\<lambda>r. if Cliente.id r = Cliente.id obj then obj else r) rows))"
    by simp
  show ?case
  proof (cases "Cliente.id r = Cliente.id obj")
    case True
    with Cons.prems(1) have others: "\<forall>x \<in> set rows. Cliente.id x \<noteq> Cliente.id obj"
      by (auto simp: image_iff)
    with Cons.prems(3) have "Cliente.rfc obj \<notin> Cliente.rfc ` set rows"
      by (auto simp: image_iff)
    moreover from others
    have "map (\<lambda>r. if Cliente.id r = Cliente.id obj then obj else r) rows = rows"
      by (simp add: map_idI)
    ultimately show ?thesis
      using True Cons.prems(2) by simp
  next
    case False
    with Cons.prems(3) have "Cliente.rfc r \<noteq> Cliente.rfc obj" by simp
    moreover from Cons.prems(2) have "\<forall>x \<in> set rows. Cliente.rfc x \<noteq> Cliente.rfc r"
      by (auto simp: image_iff)
    ultimately have
      "\<forall>x \<in> set rows. Cliente.rfc (if Cliente.id x = Cliente.id obj then obj else x) \<noteq> Cliente.rfc r"
      by simp
    then have
      "Cliente.rfc r \<notin> set (map Cliente.rfc (map (\<lambda>r. if Cliente.id r = Cliente.id obj then obj else r) rows))"
      by (force simp: image_iff)
    with False IH show ?thesis by (simp del: map_map)
  qed
qed

lemma update_Cliente_keys:
  assumes "keys_unique db" "update_Cliente obj db = Inr db'"
  shows "keys_unique db'"
proof -
  from assms(2) have chk:
    "\<forall>r \<in> set (clientes db). Cliente.id r \<noteq> Cliente.id obj \<longrightarrow> Cliente.rfc r \<noteq> Cliente.rfc obj"
    and db': "db' = db\<lparr>clientes :=
                 map (\<lambda>r. if Cliente.id r = Cliente.id obj then obj else r) (clientes db)\<rparr>"
    by (auto simp: update_Cliente_def list_ex_iff split: if_splits)
  from assms(1) chk update_rows_rfc [of "clientes db" obj] update_rows_ids [of obj "clientes db"]
  show ?thesis
    unfolding db' keys_unique_def by (simp del: map_map)
qed

lemma delete_Cliente_keys: "keys_unique db \<Longrightarrow> keys_unique (delete_Cliente obj db)"
  by (simp add: keys_unique_def delete_Cliente_def distinct_map_filter)

lemma serve_fst: "fst (serve code model p) = fst p"
  by (cases "(code, model, p)" rule: serve.cases) (auto split: option.splits)

lemma crear_cliente_keys: "keys_unique db \<Longrightarrow> keys_unique (fst (crear_cliente c db))"
  by (auto simp: crear_cliente_def Let_def split: sum.splits dest: add_Cliente_keys)

lemma actualizar_cliente_keys: "keys_unique db \<Longrightarrow> keys_unique (fst (actualizar_cliente cid u db))"
  by (auto simp: actualizar_cliente_def Let_def split: sum.splits option.splits dest: update_Cliente_keys)

lemma eliminar_cliente_keys: "keys_unique db \<Longrightarrow> keys_unique (fst (eliminar_cliente cid db))"
  by (auto simp: eliminar_cliente_def delete_Cliente_keys split: option.splits)

lemma handlers_clientes:
  "clientes (fst (crear_domicilio cid a db)) = clientes db"
  "clientes (fst (actualizar_domicilio did ua db)) = clientes db"
  "clientes (fst (eliminar_domicilio did db)) = clientes db"
  "clientes (fst (crear_producto p db)) = clientes db"
  "clientes (fst (actualizar_producto pid up db)) = clientes db"
  "clientes (fst (eliminar_producto pid db)) = clientes db"
  by (auto simp: crear_domicilio_def actualizar_domicilio_def eliminar_domicilio_def
      crear_producto_def actualizar_producto_def eliminar_producto_def
      add_Domicilio_def add_Producto_def update_Domicilio_def update_Producto_def
      delete_Domicilio_def delete_Producto_def Let_def
      split: option.splits sum.splits if_splits)

lemma readers_fst:
  "fst (listar_clientes skip limit db) = db"
  "fst (obtener_cliente cid db) = db"
  "fst (listar_domicilios cid db) = db"
  "fst (obtener_domicilio did db) = db"
  "fst (listar_productos skip limit db) = db"
  "fst (obtener_producto pid db) = db"
  by (auto simp: listar_clientes_def obtener_cliente_def listar_domicilios_def
      obtener_domicilio_def listar_productos_def obtener_producto_def split: option.splits)

lemma other_handlers_keys:
  assumes "keys_unique db"
  shows "keys_unique (fst (crear_domicilio cid a db))"
    "keys_unique (fst (actualizar_domicilio did ua db))"
    "keys_unique (fst (eliminar_domicilio did db))"
    "keys_unique (fst (crear_producto p db))"
    "keys_unique (fst (actualizar_producto pid up db))"
    "keys_unique (fst (eliminar_producto pid db))"
  using assms by (simp_all add: keys_unique_def handlers_clientes)

lemma app_keys: "keys_unique db \<Longrightarrow> keys_unique (fst (app d email r db))"
  by (cases r)
    (simp_all add: serve_fst readers_fst crear_cliente_keys actualizar_cliente_keys
      eliminar_cliente_keys other_handlers_keys
      del: serve.simps split: sum.splits)

lemma run_keys: "keys_unique db \<Longrightarrow> keys_unique (run d email rs db)"
  by (induction rs arbitrary: db) (auto simp: app_keys)














lemma empty_database_invariants: "keys_unique empty_database" "parents_exist empty_database"
  by (simp_all add: keys_unique_def parents_exist_def empty_database_def)

subsection \<open>Addresses of a client that is not there\<close>



subsection \<open>Unique tax IDs\<close>

text \<open>
  C2, as the code has it. In every store the application reaches the tax IDs of the
  clients are pairwise different. Creating a client from a payload that validates and whose
  tax ID a client of the store already has inserts nothing; the \<open>IntegrityError\<close> of the
  commit is not handled, so the answer is the generic 500, not a 422.
\<close>

theorem rfc_unique_duplicate_500:
  "distinct (map Cliente.rfc (clientes (run d email rs empty_database))) \<and>
   (ClienteBase_errors d email payload = [] \<and>
    Some (ClienteBase.rfc payload) \<in> Cliente.rfc ` set (clientes db) \<longrightarrow>
      app d email (POST_clientes payload) db = (db, server_error))"
proof -
  have "keys_unique (run d email rs empty_database)"
    by (rule run_keys) (rule empty_database_invariants)
  then have "distinct (map Cliente.rfc (clientes (run d email rs empty_database)))"
    by (simp add: keys_unique_def)
  moreover have "app d email (POST_clientes payload) db = (db, server_error)"
    if "ClienteBase_errors d email payload = []"
      and "Some (ClienteBase.rfc payload) \<in> Cliente.rfc ` set (clientes db)"
    using that
    by (auto simp: ClienteBase_validate_def crear_cliente_def add_Cliente_def Cliente_not_null_def
        list_ex_iff image_iff split: option.splits)
  ultimately show ?thesis by blast
qed

text \<open>
  Against C2 as stated: the client of the tests is created a second time; the answer is 500
  where the claim says 422.
\<close>

theorem duplicate_rfc_not_422:
  "Some (ClienteBase.rfc test_cliente) \<in> Cliente.rfc ` set (clientes test_database) \<and>
   app ascii_digit at_email (POST_clientes test_cliente) test_database =
     (test_database, \<lparr>status_code = 500, content = Internal_Server_Error\<rparr>)"
  by code_simp

theorem rfc_unique_duplicate_500_witness:
  "distinct (map Cliente.rfc (clientes test_database)) \<and>
   ClienteBase_errors ascii_digit at_email test_cliente = [] \<and>
   Some (ClienteBase.rfc test_cliente) \<in> Cliente.rfc ` set (clientes test_database) \<and>
   app ascii_digit at_email (POST_clientes test_cliente) test_database =
     (test_database, server_error)"
proof -
  have valid: "ClienteBase_errors ascii_digit at_email test_cliente = []"
    by code_simp
  have dup: "Some (ClienteBase.rfc test_cliente) \<in> Cliente.rfc ` set (clientes test_database)"
    by code_simp
  from rfc_unique_duplicate_500 [of ascii_digit at_email test_requests test_cliente test_database]
    valid dup
  show ?thesis by (simp add: test_database_reached)
qed

subsection \<open>Listing\<close>




subsection \<open>The price of a product\<close>



subsection \<open>Validation, field by field\<close>




lemma pattern_errors_Nil:
  "(pattern_errors loc lo hi P s = []) = (lo \<le> length s \<and> length s \<le> hi \<and> P s)"
  by (auto simp: pattern_errors_def)




lemma ClienteBase_validate_Inr:
  "ClienteBase_validate d email m = Inr m' \<Longrightarrow> ClienteBase_errors d email m = []"
  by (simp add: ClienteBase_validate_def split: list.splits)















subsection \<open>Partial updates\<close>




subsection \<open>The tax ID pattern on create and on update\<close>

text \<open>
  Creating a client checks the pattern: a payload whose tax ID does not match is answered
  with 422 and the store is unchanged, and whenever a client was inserted or the answer is
  201 the tax ID matches.
\<close>

lemma create_checks_rfc:
  "(\<not> rfc_pattern d (ClienteBase.rfc payload) \<longrightarrow>
      (\<exists>errs. errs \<noteq> [] \<and> app d email (POST_clientes payload) db = (db, unprocessable errs))) \<and>
   (fst (app d email (POST_clientes payload) db) \<noteq> db \<or>
    status_code (snd (app d email (POST_clientes payload) db)) = 201 \<longrightarrow>
      rfc_pattern d (ClienteBase.rfc payload))"
proof (cases "ClienteBase_validate d email payload")
  case (Inl errs)
  then have "errs \<noteq> []"
    by (auto simp: ClienteBase_validate_def split: list.splits option.splits)
  with Inl show ?thesis
    by (auto simp: unprocessable_def)
next
  case (Inr m)
  from ClienteBase_validate_Inr [OF this] have "rfc_pattern d (ClienteBase.rfc payload)"
    by (simp add: ClienteBase_errors_def pattern_errors_Nil)
  then show ?thesis by simp
qed

text \<open>
  C1 fails on the update route. \<open>ClienteUpdate.rfc\<close> repeats the length bounds of
  \<open>ClienteBase.rfc\<close> but not its pattern: the twelve lower-case letters
  \<open>abcdefghijkl\<close>, which do not match, are accepted by validation and written to the
  store. The answer is not 422 but 500, since the stored client no longer passes the
  response model.
\<close>

theorem update_accepts_bad_rfc:
  "\<not> rfc_pattern ascii_digit (ascii ''abcdefghijkl'') \<and>
   app ascii_digit at_email (PUT_cliente 1 bad_rfc_update) test_database =
     (test_database\<lparr>clientes :=
        [(hd (clientes test_database))\<lparr>Cliente.rfc := Some (ascii ''abcdefghijkl'')\<rparr>]\<rparr>,
      \<lparr>status_code = 500, content = Internal_Server_Error\<rparr>)"
  by code_simp

subsection \<open>Metrics\<close>

text \<open>
  Without credentials in the environment the collector has no client and the middleware
  only logs; with a client, a \<open>ClientError\<close> of the sink is logged and swallowed.
\<close>

lemma metrics_without_credentials:
  assumes "\<not> (truthy (AWS_ACCESS_KEY_ID os_environ) \<and> truthy (AWS_SECRET_ACCESS_KEY os_environ))"
    and "\<not> truthy (AWS_PROFILE os_environ)"
  shows "cloudwatch (fst (MetricsCollector_init ns env reg os_environ boto3_client)) = None"
  using assms by (auto simp: MetricsCollector_init_def Let_def)

lemma metrics_local_only:
  assumes "cloudwatch metrics = None"
  shows "metrics_middleware metrics method path duration resp =
           ([Info ''[METRIC] Latency'', Info ''[METRIC] HTTP Status''], Inr resp)"
  using assms
  by (simp add: metrics_middleware_def record_latency_def record_http_status_def Let_def)

lemma metrics_ClientError_swallowed:
  assumes "cloudwatch metrics = Some client"
    and "\<And>ns data. client ns data \<noteq> Some NoCredentialsError"
    and "\<And>ns data. client ns data \<noteq> Some EndpointConnectionError"
  shows "snd (metrics_middleware metrics method path duration resp) = Inr resp"
  using assms
  by (auto simp: metrics_middleware_def record_latency_def record_http_status_def Let_def
      split: option.splits botocore_exception.splits)

text \<open>
  C4 fails when the sink cannot be reached. With credentials in the environment the
  collector has a client; \<open>put_metric_data\<close> raises \<open>EndpointConnectionError\<close>, which
  \<open>except ClientError\<close> does not catch, so the exception leaves \<open>record_latency\<close> and
  the middleware, and the request fails instead of returning its response.
\<close>

theorem metrics_unreachable_sink_fails:
  "cloudwatch (fst (MetricsCollector_init (ascii ''CatalogosAPI'') (ascii ''local'')
      (ascii ''us-east-1'') aws_environ (Inr unreachable_sink))) = Some unreachable_sink \<and>
   snd (metrics_middleware
         (fst (MetricsCollector_init (ascii ''CatalogosAPI'') (ascii ''local'')
            (ascii ''us-east-1'') aws_environ (Inr unreachable_sink)))
         (ascii ''GET'') (ascii ''/health'') 1 \<lparr>status_code = 200, content = Health_json\<rparr>) =
     Inl EndpointConnectionError"
  by (simp add: MetricsCollector_init_def aws_environ_def truthy_def ascii_def Let_def
      metrics_middleware_def record_latency_def unreachable_sink_def)

end
